theory Spec2Isabelle
  imports Main
begin

section \<open>Strings, numbers and header lists of the platform\<close>

text \<open>
  JavaScript strings are modelled as \<^typ>\<open>string\<close>. The operations the worker uses
  (\<^verbatim>\<open>endsWith\<close>, \<^verbatim>\<open>startsWith\<close>, \<^verbatim>\<open>split\<close>, \<^verbatim>\<open>slice\<close>, \<^verbatim>\<open>join\<close>) do not look inside a
  character, so the alphabet does not matter.
\<close>

definition endsWith :: "string \<Rightarrow> string \<Rightarrow> bool" where
  "endsWith s suf \<longleftrightarrow>
     length suf \<le> length s \<and> drop (length s - length suf) s = suf"

definition startsWith :: "string \<Rightarrow> string \<Rightarrow> bool" where
  "startsWith s pre \<longleftrightarrow> take (length pre) s = pre"

text \<open>\<^verbatim>\<open>s.split(sep)\<close> for a one-character separator: never the empty array.\<close>

fun split :: "char \<Rightarrow> string \<Rightarrow> string list" where
  "split sep [] = [[]]"
| "split sep (c # cs) =
     (if c = sep then [] # split sep cs
      else (case split sep cs of
              [] \<Rightarrow> [[c]]
            | x # xs \<Rightarrow> (c # x) # xs))"

text \<open>\<^verbatim>\<open>arr.join(sep)\<close>.\<close>

fun join :: "string \<Rightarrow> string list \<Rightarrow> string" where
  "join sep [] = []"
| "join sep [x] = x"
| "join sep (x # y # ys) = x @ sep @ join sep (y # ys)"

text \<open>\<^verbatim>\<open>arr[i]\<close>: \<^verbatim>\<open>undefined\<close> out of range.\<close>

definition at_index :: "'a list \<Rightarrow> nat \<Rightarrow> 'a option" where
  "at_index xs i = (if i < length xs then Some (xs ! i) else None)"

text \<open>
  Truthiness of a value that is a string, \<^verbatim>\<open>null\<close> or \<^verbatim>\<open>undefined\<close>: the empty string
  is falsy as well.
\<close>

definition truthy :: "string option \<Rightarrow> bool" where
  "truthy v = (case v of None \<Rightarrow> False | Some s \<Rightarrow> s \<noteq> [])"

text \<open>
  Numbers: the sizes, offsets and the TTL are integers, modelled as \<^typ>\<open>int\<close>; a
  template literal renders them in decimal. (JavaScript agrees with this for integers
  below \<open>2^53\<close>.)
\<close>

fun nat_digits :: "nat \<Rightarrow> string" where
  "nat_digits n =
     (if n < 10 then [''0123456789'' ! n]
      else nat_digits (n div 10) @ [''0123456789'' ! (n mod 10)])"

declare nat_digits.simps [simp del]

definition js_num :: "int \<Rightarrow> string" where
  "js_num i = (if i < 0 then CHR ''-'' # nat_digits (nat (- i)) else nat_digits (nat i))"

text \<open>
  A \<^verbatim>\<open>Headers\<close> object: header names are case-insensitive, the object keeps them in
  lower case. A header list is a map from the lower-case name to the value; it is read
  and written through \<open>hget\<close>, \<open>hhas\<close> and \<open>hset\<close> only.
\<close>

definition to_lower :: "char \<Rightarrow> char" where
  "to_lower c =
     (case map_of (zip ''ABCDEFGHIJKLMNOPQRSTUVWXYZ'' ''abcdefghijklmnopqrstuvwxyz'') c of
        None \<Rightarrow> c
      | Some d \<Rightarrow> d)"

definition lowercase :: "string \<Rightarrow> string" where
  "lowercase s = map to_lower s"

type_synonym headers = "string \<rightharpoonup> string"

definition hget :: "headers \<Rightarrow> string \<Rightarrow> string option" where
  "hget h name = h (lowercase name)"

definition hhas :: "headers \<Rightarrow> string \<Rightarrow> bool" where
  "hhas h name \<longleftrightarrow> h (lowercase name) \<noteq> None"

definition hset :: "headers \<Rightarrow> string \<Rightarrow> string \<Rightarrow> headers" where
  "hset h name v = h(lowercase name \<mapsto> v)"

section \<open>Configuration (config.js)\<close>

datatype prefix_folders = FolderArray "string list" | FolderString string

record wm_config =
  aesKey :: string
  folder_type :: string
  availableInterval :: int
  prefixFolder :: prefix_folders
  wmtPublicKey :: string
  wmtPassword :: string

definition config :: wm_config where
  "config =
     \<lparr>aesKey = ''{Your DoveRunner Site Key}'',
      folder_type = ''unlabeled_a_variant'',
      availableInterval = 60000,
      prefixFolder = FolderArray [''dldzkdpsxmdnjrtm'', ''wm-contents''],
      wmtPublicKey = ''{Your DoveRunner Akamai Public Key}'',
      wmtPassword = ''{Your DoveRunner Akamai Key Password}''\<rparr>"

record cache_config =
  enabled :: bool
  ttl :: int
  cacheableExtensions :: "string list"

definition CACHE_CONFIG :: cache_config where
  "CACHE_CONFIG =
     \<lparr>enabled = True,
      ttl = 3600,
      cacheableExtensions = [''.m3u8'', ''.ts'', ''.mp4'', ''.m4s'', ''.mpd'']\<rparr>"

section \<open>Requests, responses, the object store and the cache\<close>

text \<open>
  \<^verbatim>\<open>new URL(request.url)\<close>: the request carries its URL already parsed into the parts
  the worker reads.
\<close>

record url =
  origin :: string
  pathname :: string
  search :: string

text \<open>A request: \<^verbatim>\<open>request.method\<close>, \<^verbatim>\<open>request.url\<close> and \<^verbatim>\<open>request.headers\<close>.\<close>

record request =
  req_method :: string
  req_url :: url
  req_headers :: headers

text \<open>A response; \<open>body = None\<close> is the \<^verbatim>\<open>null\<close> body.\<close>

record response =
  status :: int
  body :: "string option"
  headers :: headers

text \<open>
  \<^verbatim>\<open>new Response(text, {status, headers})\<close> with a string body: the constructor adds the
  content type of a text body when the headers have none.
\<close>

definition text_Response :: "string \<Rightarrow> int \<Rightarrow> headers \<Rightarrow> response" where
  "text_Response txt st h =
     \<lparr>status = st, body = Some txt,
      headers = (if hhas h ''content-type'' then h
                 else hset h ''content-type'' ''text/plain;charset=UTF-8'')\<rparr>"

text \<open>
  \<^verbatim>\<open>new Response(b, init)\<close> where \<open>b\<close> is a stream or \<^verbatim>\<open>null\<close> and \<open>init\<close> is another
  response: the status and a copy of the headers of \<open>init\<close>, the body \<open>b\<close>.
\<close>

definition copy_Response :: "string option \<Rightarrow> response \<Rightarrow> response" where
  "copy_Response b init = \<lparr>status = status init, body = b, headers = headers init\<rparr>"

definition set_header :: "response \<Rightarrow> string \<Rightarrow> string \<Rightarrow> response" where
  "set_header r name v = r\<lparr>headers := hset (headers r) name v\<rparr>"

text \<open>
  The object store: \<^verbatim>\<open>get(key, options)\<close> answers \<^verbatim>\<open>null\<close> or an object. The property
  \<^verbatim>\<open>body\<close> is absent (\<open>None\<close>) when a condition of \<^verbatim>\<open>onlyIf\<close> failed; \<^verbatim>\<open>range\<close> is the range
  the store returned, when it returned one, with its offset and its length.
  \<^verbatim>\<open>writeHttpMetadata(headers)\<close> writes the stored metadata into a header list.
\<close>

record r2_range =
  offset :: int
  range_length :: int

record r2_object =
  r2_body :: "string option"
  r2_range :: "r2_range option"
  r2_size :: int
  httpEtag :: string
  writeHttpMetadata :: "headers \<Rightarrow> headers"

record r2_options =
  onlyIf :: headers
  opt_range :: "headers option"

text \<open>What a request does outside the worker, in the order it does it.\<close>

datatype effect =
    AkamaiWmt string "string list"
  | RemoveRevokeToken "string list"
  | DoveRunnerAes string "string list" string bool
  | CacheMatch string
  | CachePut string response
  | BucketGet string r2_options

text \<open>
  The modules \<^verbatim>\<open>wmt/akamaiWmt.js\<close>, \<^verbatim>\<open>wmt/doveRunnerAes.js\<close> and
  \<^verbatim>\<open>watermark-util/wmUtil.js\<close>, the bucket binding and the default cache are parameters
  of the worker. Each call either throws (\<open>Inl\<close> of the error's message) or returns.
  A content URL is a string or \<^verbatim>\<open>undefined\<close>.
\<close>

record platform =
  akamaiWmt_getContentUrl :: "string \<Rightarrow> string list \<Rightarrow> wm_config \<Rightarrow> string + string option"
  wmUtil_removeRevokeToken :: "string list \<Rightarrow> string + (string list \<times> bool)"
  doveRunnerAes_getContentUrl ::
    "string \<Rightarrow> string list \<Rightarrow> string \<Rightarrow> wm_config \<Rightarrow> bool \<Rightarrow> string + string option"
  FWM_BUCKER_get :: "string \<Rightarrow> r2_options \<Rightarrow> string + r2_object option"
  cache_match :: "string \<Rightarrow> response option"

text \<open>
  A computation of the worker: it throws or returns a value, and leaves a trace of
  effects behind.
\<close>

type_synonym 'a res = "(string + 'a) \<times> effect list"

definition ret :: "'a \<Rightarrow> 'a res" where
  "ret a = (Inr a, [])"

definition throw :: "string \<Rightarrow> 'a res" where
  "throw msg = (Inl msg, [])"

definition call :: "effect \<Rightarrow> string + 'a \<Rightarrow> 'a res" where
  "call e r = (r, [e])"

definition bind_res :: "'a res \<Rightarrow> ('a \<Rightarrow> 'b res) \<Rightarrow> 'b res" where
  "bind_res m f =
     (case m of
        (Inl msg, es) \<Rightarrow> (Inl msg, es)
      | (Inr a, es) \<Rightarrow> (case f a of (r, es') \<Rightarrow> (r, es @ es')))"

section \<open>The worker (index.js)\<close>

text \<open>
  Each function below is the function of the same name in \<^verbatim>\<open>src/index.js\<close>; the handler
  \<^verbatim>\<open>fetch\<close> is split into the resolution of the path, the part that serves a resolved
  path, the \<^verbatim>\<open>try\<close> block and the handler itself. Left out: \<^verbatim>\<open>console.log\<close>; the checks
  of the \<^verbatim>\<open>Response\<close> and \<^verbatim>\<open>Headers\<close> constructors (the worker builds 200, 206, 400, 404 and
  405 responses, 304 with a null body, and copies of responses); the parsing of the cache
  key by \<^verbatim>\<open>new Request(cacheKey)\<close> (the key is the origin of a parsed URL followed by a
  path); the outcome of \<^verbatim>\<open>cache.put\<close>, which runs under \<^verbatim>\<open>ctx.waitUntil\<close> after the
  response: the trace records the entry handed to it.
\<close>

definition checkWatermarkPath :: "string \<Rightarrow> bool" where
  "checkWatermarkPath reqPrefixFolder =
     (case prefixFolder config of
        FolderArray fs \<Rightarrow> reqPrefixFolder \<in> set fs
      | FolderString f \<Rightarrow> f = reqPrefixFolder)"

definition getContentType :: "string \<Rightarrow> string option" where
  "getContentType path =
     (if endsWith path ''.m3u8'' then Some ''application/vnd.apple.mpegurl''
      else if endsWith path ''.ts'' then Some ''video/mp2t''
      else if endsWith path ''.mp4'' then Some ''video/mp4''
      else if endsWith path ''.m4s'' then Some ''video/iso.segment''
      else if endsWith path ''.mpd'' then Some ''application/dash+xml''
      else None)"

definition isCacheable :: "string \<Rightarrow> bool" where
  "isCacheable path = list_ex (\<lambda>ext. endsWith path ext) (cacheableExtensions CACHE_CONFIG)"

definition getCacheKey :: "request \<Rightarrow> string \<Rightarrow> string" where
  "getCacheKey request finalRequestPath = origin (req_url request) @ finalRequestPath"

definition getFromCache :: "platform \<Rightarrow> string \<Rightarrow> response option res" where
  "getFromCache w cacheKey =
     (if \<not> enabled CACHE_CONFIG then ret None
      else call (CacheMatch cacheKey) (Inr (cache_match w cacheKey)))"

definition storeInCache :: "string \<Rightarrow> response \<Rightarrow> unit res" where
  "storeInCache cacheKey response =
     (if \<not> enabled CACHE_CONFIG then ret ()
      else
        let hs = hset (headers response) ''Cache-Control''
                   (''public, max-age='' @ js_num (ttl CACHE_CONFIG));
            cacheResponse = \<lparr>status = status response, body = body response, headers = hs\<rparr>
        in call (CachePut cacheKey cacheResponse) (Inr ()))"

definition generateResponse :: "platform \<Rightarrow> string \<Rightarrow> headers \<Rightarrow> response res" where
  "generateResponse w finalRequestPath reqHeaders =
     (let key = drop 1 finalRequestPath;
          rangeHeader = hget reqHeaders ''range'';
          r2Options = \<lparr>onlyIf = reqHeaders,
                       opt_range = (if truthy rangeHeader then Some reqHeaders else None)\<rparr>
      in bind_res (call (BucketGet key r2Options) (FWM_BUCKER_get w key r2Options))
           (\<lambda>object.
              case object of
                None \<Rightarrow> ret (text_Response ''Object Not Found'' 404 Map.empty)
              | Some obj \<Rightarrow>
                  let h1 = writeHttpMetadata obj Map.empty;
                      h2 = hset h1 ''etag'' (httpEtag obj);
                      h3 = (case getContentType key of
                              None \<Rightarrow> h2
                            | Some contentType \<Rightarrow> hset h2 ''content-type'' contentType);
                      h4 = hset h3 ''access-control-allow-origin'' ''*''
                  in if r2_body obj = None
                     then ret \<lparr>status = 304, body = None, headers = h4\<rparr>
                     else
                       let st = (if truthy rangeHeader \<and> r2_range obj \<noteq> None
                                 then 206 else 200);
                           h5 = (case r2_range obj of
                                   None \<Rightarrow> h4
                                 | Some r \<Rightarrow>
                                     hset h4 ''content-range''
                                       (''bytes '' @ js_num (offset r) @ ''-''
                                        @ js_num (offset r + range_length r - 1)
                                        @ ''/'' @ js_num (r2_size obj)))
                       in ret \<lparr>status = st, body = r2_body obj, headers = h5\<rparr>))"

text \<open>
  The first part of the \<^verbatim>\<open>try\<close> block of \<^verbatim>\<open>fetch\<close>: the route is chosen by the first path
  segment and the content URL is resolved. \<^verbatim>\<open>arrUri[1]\<close> is \<^verbatim>\<open>undefined\<close> when the path
  has no slash, and \<^verbatim>\<open>startsWith\<close> on it throws.
\<close>

definition resolveFinalRequestPath :: "platform \<Rightarrow> request \<Rightarrow> string option res" where
  "resolveFinalRequestPath w request =
     (let u = req_url request;
          arrUri = split CHR ''/'' (pathname u)
      in case at_index arrUri 1 of
           None \<Rightarrow> throw ''Cannot read properties of undefined''
         | Some reqPrefixFolder \<Rightarrow>
             if startsWith reqPrefixFolder ''wmt:''
             then call (AkamaiWmt (pathname u) arrUri)
                    (akamaiWmt_getContentUrl w (pathname u) arrUri config)
             else if checkWatermarkPath reqPrefixFolder
             then bind_res (call (RemoveRevokeToken arrUri) (wmUtil_removeRevokeToken w arrUri))
                    (\<lambda>(modifiedArrUri, hasRevokeToken).
                       let requestPath = ''/'' @ join ''/'' (drop 1 modifiedArrUri)
                       in call (DoveRunnerAes requestPath modifiedArrUri reqPrefixFolder
                                  hasRevokeToken)
                            (doveRunnerAes_getContentUrl w requestPath modifiedArrUri
                               reqPrefixFolder config hasRevokeToken))
             else ret None)"

text \<open>What \<^verbatim>\<open>fetch\<close> returns for a \<^verbatim>\<open>HEAD\<close> request: the same response without a body.\<close>

definition for_method :: "request \<Rightarrow> response \<Rightarrow> response" where
  "for_method request r =
     (if req_method request = ''HEAD'' then copy_Response None r else r)"

text \<open>The rest of the \<^verbatim>\<open>try\<close> block, once the content URL is truthy.\<close>

definition serve :: "platform \<Rightarrow> request \<Rightarrow> string \<Rightarrow> response res" where
  "serve w request finalRequestPath =
     (let cacheKey = getCacheKey request finalRequestPath;
          hasRangeHeader = hhas (req_headers request) ''range'';
          shouldCache = (isCacheable finalRequestPath \<and> \<not> hasRangeHeader)
      in bind_res (if shouldCache then getFromCache w cacheKey else ret None)
           (\<lambda>cached.
              case cached of
                Some cachedResponse \<Rightarrow>
                  ret (for_method request
                         (set_header (copy_Response (body cachedResponse) cachedResponse)
                            ''X-Cache-Status'' ''HIT''))
              | None \<Rightarrow>
                  bind_res (generateResponse w finalRequestPath (req_headers request))
                    (\<lambda>response.
                       if shouldCache \<and> status response = 200
                       then
                         let responseWithHeader =
                               set_header (copy_Response (body response) response)
                                 ''X-Cache-Status'' ''MISS''
                         in bind_res (storeInCache cacheKey response)
                              (\<lambda>_. ret (for_method request responseWithHeader))
                       else ret (for_method request response))))"

definition fetch_try :: "platform \<Rightarrow> request \<Rightarrow> response res" where
  "fetch_try w request =
     bind_res (resolveFinalRequestPath w request)
       (\<lambda>finalRequestPath.
          if \<not> truthy finalRequestPath
          then ret (text_Response ''Not Found'' 404 Map.empty)
          else serve w request (case finalRequestPath of None \<Rightarrow> [] | Some p \<Rightarrow> p))"

text \<open>
  The handler: the response and the trace of the request. An exception of the \<^verbatim>\<open>try\<close>
  block becomes the 400 response with the error's message.
\<close>

definition fetch :: "platform \<Rightarrow> request \<Rightarrow> response \<times> effect list" where
  "fetch w request =
     (if req_method request = ''GET'' \<or> req_method request = ''HEAD''
      then (case fetch_try w request of
              (Inl msg, es) \<Rightarrow> (text_Response msg 400 Map.empty, es)
            | (Inr r, es) \<Rightarrow> (r, es))
      else (text_Response ''Method Not Allowed'' 405 (hset Map.empty ''Allow'' ''GET, HEAD''), []))"

section \<open>Observations on a trace\<close>

text \<open>The value a computation returns, when it does not throw.\<close>

definition returned :: "'a res \<Rightarrow> 'a option" where
  "returned m = (case fst m of Inl msg \<Rightarrow> None | Inr a \<Rightarrow> Some a)"

text \<open>The key of a cache access (a lookup or a store), and the accesses to the object store.\<close>

definition cache_key :: "effect \<Rightarrow> string option" where
  "cache_key e =
     (case e of CacheMatch k \<Rightarrow> Some k | CachePut k r \<Rightarrow> Some k | _ \<Rightarrow> None)"

definition is_cache_access :: "effect \<Rightarrow> bool" where
  "is_cache_access e \<longleftrightarrow> cache_key e \<noteq> None"

definition is_store_access :: "effect \<Rightarrow> bool" where
  "is_store_access e = (case e of BucketGet k opts \<Rightarrow> True | _ \<Rightarrow> False)"

text \<open>
  The entry \<open>storeInCache\<close> hands to \<^verbatim>\<open>cache.put\<close> for a response: the same status and
  body, the headers with \<^verbatim>\<open>Cache-Control\<close> set.
\<close>

definition cache_entry :: "response \<Rightarrow> response" where
  "cache_entry r =
     \<lparr>status = status r, body = body r,
      headers = hset (headers r) ''Cache-Control''
                  (''public, max-age='' @ js_num (ttl CACHE_CONFIG))\<rparr>"

section \<open>A small deployment, for concrete runs\<close>

text \<open>
  One playlist in the bucket. The store answers a matching \<^verbatim>\<open>If-None-Match\<close> without a
  body, honours the range \<^verbatim>\<open>bytes=2-5\<close> when it is given the range option, and reports
  the range it returned with every object. The AES resolver maps every tokenised URL to
  the playlist; the cache is empty, or holds the playlist (\<open>warm_platform\<close>).
\<close>

definition demo_path :: string where
  "demo_path = ''/wm-contents/out/cid/stream.m3u8''"

definition demo_object :: r2_object where
  "demo_object =
     \<lparr>r2_body = Some ''#EXTM3U'',
      r2_range = Some \<lparr>offset = 0, range_length = 7\<rparr>,
      r2_size = 7,
      httpEtag = ''v1'',
      writeHttpMetadata = (\<lambda>h. hset h ''Cache-Control'' ''no-store'')\<rparr>"

definition demo_get :: "string \<Rightarrow> r2_options \<Rightarrow> string + r2_object option" where
  "demo_get key opts =
     (if key \<noteq> drop 1 demo_path then Inr None
      else if hget (onlyIf opts) ''If-None-Match'' = Some (httpEtag demo_object)
      then Inr (Some (demo_object\<lparr>r2_body := None\<rparr>))
      else if (case opt_range opts of
                 None \<Rightarrow> False
               | Some rh \<Rightarrow> hget rh ''Range'' = Some ''bytes=2-5'')
      then Inr (Some (demo_object\<lparr>r2_body := Some ''XTM3'',
                        r2_range := Some \<lparr>offset = 2, range_length = 4\<rparr>\<rparr>))
      else Inr (Some demo_object))"

definition demo_platform :: platform where
  "demo_platform =
     \<lparr>akamaiWmt_getContentUrl = (\<lambda>path arr cfg. Inl ''jwt malformed''),
      wmUtil_removeRevokeToken = (\<lambda>arr. Inr (arr, False)),
      doveRunnerAes_getContentUrl = (\<lambda>path arr folder cfg revoked. Inr (Some demo_path)),
      FWM_BUCKER_get = demo_get,
      cache_match = (\<lambda>key. None)\<rparr>"

definition demo_cached :: response where
  "demo_cached =
     \<lparr>status = 200, body = Some ''#EXTM3U'',
      headers = hset (hset Map.empty ''etag'' ''v1'') ''Cache-Control''
                  ''public, max-age=3600''\<rparr>"

definition warm_platform :: platform where
  "warm_platform =
     demo_platform\<lparr>cache_match :=
       (\<lambda>key. if key = ''https://cdn.example.com'' @ demo_path
              then Some demo_cached else None)\<rparr>"

definition demo_request :: request where
  "demo_request =
     \<lparr>req_method = ''GET'',
      req_url = \<lparr>origin = ''https://cdn.example.com'',
                 pathname = ''/wm-contents/TOKEN/out/cid/stream.m3u8'',
                 search = []\<rparr>,
      req_headers = Map.empty\<rparr>"

definition with_header :: "request \<Rightarrow> string \<Rightarrow> string \<Rightarrow> request" where
  "with_header r name v = r\<lparr>req_headers := hset (req_headers r) name v\<rparr>"

definition range_request :: request where
  "range_request = with_header demo_request ''Range'' ''bytes=2-5''"

definition empty_range_request :: request where
  "empty_range_request = with_header demo_request ''Range'' []"

definition conditional_request :: request where
  "conditional_request = with_header demo_request ''If-None-Match'' ''v1''"

definition conditional_range_request :: request where
  "conditional_range_request = with_header range_request ''If-None-Match'' ''v1''"

definition post_request :: request where
  "post_request = demo_request\<lparr>req_method := ''POST''\<rparr>"

definition unknown_request :: request where
  "unknown_request =
     demo_request\<lparr>req_url := \<lparr>origin = ''https://cdn.example.com'',
                                pathname = ''/videos/out/cid/stream.m3u8'',
                                search = []\<rparr>\<rparr>"

definition other_session_request :: request where
  "other_session_request =
     demo_request\<lparr>req_url := \<lparr>origin = ''https://cdn.example.com'',
                                pathname = ''/wm-contents/TOKEN2/out/cid/stream.m3u8'',
                                search = ''?session=2''\<rparr>\<rparr>"

text \<open>What the content fetcher answers for the playlist when the request has no headers.\<close>

definition demo_response :: response where
  "demo_response =
     \<lparr>status = 200, body = Some ''#EXTM3U'',
      headers =
        hset (hset (hset (hset (hset Map.empty
          ''Cache-Control'' ''no-store'')
          ''etag'' ''v1'')
          ''content-type'' ''application/vnd.apple.mpegurl'')
          ''access-control-allow-origin'' ''*'')
          ''content-range'' ''bytes 0-6/7''\<rparr>"

section \<open>Basic facts\<close>

lemma lowercase_names:
  "lowercase ''range'' = ''range''"
  "lowercase ''Range'' = ''range''"
  "lowercase ''etag'' = ''etag''"
  "lowercase ''ETag'' = ''etag''"
  "lowercase ''content-type'' = ''content-type''"
  "lowercase ''Content-Type'' = ''content-type''"
  "lowercase ''access-control-allow-origin'' = ''access-control-allow-origin''"
  "lowercase ''Access-Control-Allow-Origin'' = ''access-control-allow-origin''"
  "lowercase ''content-range'' = ''content-range''"
  "lowercase ''Content-Range'' = ''content-range''"
  "lowercase ''Cache-Control'' = ''cache-control''"
  "lowercase ''X-Cache-Status'' = ''x-cache-status''"
  "lowercase ''Allow'' = ''allow''"
  "lowercase ''If-None-Match'' = ''if-none-match''"
  by (simp_all add: lowercase_def to_lower_def)

lemma hget_hset:
  "hget (hset h n v) m = (if lowercase m = lowercase n then Some v else hget h m)"
  by (simp add: hget_def hset_def)

lemma hget_empty [simp]: "hget (\<lambda>x. None) n = None"
  by (simp add: hget_def)

lemma hhas_hget: "hhas h n \<longleftrightarrow> hget h n \<noteq> None"
  by (simp add: hhas_def hget_def)

lemma truthy_iff: "truthy v \<longleftrightarrow> (\<exists>s. v = Some s \<and> s \<noteq> [])"
  by (cases v) (simp_all add: truthy_def)

lemma fst_bind_res:
  "fst (bind_res m f) = (case fst m of Inl msg \<Rightarrow> Inl msg | Inr a \<Rightarrow> fst (f a))"
  by (cases m) (auto simp: bind_res_def split: sum.splits prod.splits)

lemma snd_bind_res:
  "snd (bind_res m f) = snd m @ (case fst m of Inl msg \<Rightarrow> [] | Inr a \<Rightarrow> snd (f a))"
  by (cases m) (auto simp: bind_res_def split: sum.splits prod.splits)

lemma fst_ret [simp]: "fst (ret a) = Inr a"
  by (simp add: ret_def)

lemma snd_ret [simp]: "snd (ret a) = []"
  by (simp add: ret_def)

lemma fst_call [simp]: "fst (call e r) = r"
  by (simp add: call_def)

lemma snd_call [simp]: "snd (call e r) = [e]"
  by (simp add: call_def)

lemma fst_throw [simp]: "fst (throw msg) = Inl msg"
  by (simp add: throw_def)

lemma snd_throw [simp]: "snd (throw msg) = []"
  by (simp add: throw_def)

lemma enabled_CACHE_CONFIG: "enabled CACHE_CONFIG"
  by (simp add: CACHE_CONFIG_def)

lemma ttl_CACHE_CONFIG: "js_num (ttl CACHE_CONFIG) = ''3600''"
  by (simp add: CACHE_CONFIG_def js_num_def nat_digits.simps)

lemma isCacheable_iff:
  "isCacheable p \<longleftrightarrow>
     (\<exists>ext \<in> {''.m3u8'', ''.ts'', ''.mp4'', ''.m4s'', ''.mpd''}. endsWith p ext)"
  by (simp add: isCacheable_def CACHE_CONFIG_def)

lemma checkWatermarkPath_iff:
  "checkWatermarkPath seg \<longleftrightarrow> seg \<in> {''dldzkdpsxmdnjrtm'', ''wm-contents''}"
  by (auto simp: checkWatermarkPath_def config_def)

lemmas demo_defs = demo_path_def demo_object_def demo_get_def demo_platform_def
  demo_cached_def warm_platform_def demo_request_def with_header_def range_request_def
  empty_range_request_def conditional_request_def conditional_range_request_def
  post_request_def unknown_request_def other_session_request_def

lemmas worker_defs = fetch_def fetch_try_def serve_def resolveFinalRequestPath_def
  generateResponse_def storeInCache_def getFromCache_def getCacheKey_def isCacheable_def
  getContentType_def checkWatermarkPath_def for_method_def set_header_def copy_Response_def
  text_Response_def bind_res_def call_def ret_def throw_def config_def CACHE_CONFIG_def
  truthy_def at_index_def startsWith_def endsWith_def hget_def hset_def hhas_def js_num_def
  nat_digits.simps returned_def cache_key_def is_cache_access_def is_store_access_def Let_def

section \<open>The content fetcher, step by step\<close>

lemma generateResponse_trace:
  "snd (generateResponse w p h) =
     [BucketGet (drop 1 p)
        \<lparr>onlyIf = h, opt_range = (if truthy (hget h ''range'') then Some h else None)\<rparr>]"
  by (simp add: generateResponse_def Let_def snd_bind_res split: sum.splits option.splits)

lemma generateResponse_result:
  "fst (generateResponse w p h) =
     (case FWM_BUCKER_get w (drop 1 p)
             \<lparr>onlyIf = h, opt_range = (if truthy (hget h ''range'') then Some h else None)\<rparr> of
        Inl msg \<Rightarrow> Inl msg
      | Inr None \<Rightarrow> Inr (text_Response ''Object Not Found'' 404 Map.empty)
      | Inr (Some obj) \<Rightarrow>
          (let h1 = writeHttpMetadata obj Map.empty;
               h2 = hset h1 ''etag'' (httpEtag obj);
               h3 = (case getContentType (drop 1 p) of
                       None \<Rightarrow> h2
                     | Some contentType \<Rightarrow> hset h2 ''content-type'' contentType);
               h4 = hset h3 ''access-control-allow-origin'' ''*''
           in if r2_body obj = None
              then Inr \<lparr>status = 304, body = None, headers = h4\<rparr>
              else Inr \<lparr>status = (if truthy (hget h ''range'') \<and> r2_range obj \<noteq> None
                                  then 206 else 200),
                        body = r2_body obj,
                        headers = (case r2_range obj of
                                     None \<Rightarrow> h4
                                   | Some r \<Rightarrow>
                                       hset h4 ''content-range''
                                         (''bytes '' @ js_num (offset r) @ ''-''
                                          @ js_num (offset r + range_length r - 1)
                                          @ ''/'' @ js_num (r2_size obj)))\<rparr>))"
  by (simp add: generateResponse_def Let_def fst_bind_res split: sum.splits option.splits)

section \<open>The handler, step by step\<close>

lemma storeInCache_entry:
  "storeInCache cacheKey response = (Inr (), [CachePut cacheKey (cache_entry response)])"
  by (simp add: storeInCache_def cache_entry_def enabled_CACHE_CONFIG call_def Let_def)

lemma resolve_trace_no_access:
  assumes "e \<in> set (snd (resolveFinalRequestPath w request))"
  shows "\<not> is_cache_access e \<and> \<not> is_store_access e"
  using assms
  by (auto simp: resolveFinalRequestPath_def Let_def snd_bind_res is_cache_access_def
        cache_key_def is_store_access_def
        split: option.splits if_splits sum.splits prod.splits)

lemma serve_trace:
  "snd (serve w request p) =
     (if isCacheable p \<and> \<not> hhas (req_headers request) ''range''
      then CacheMatch (getCacheKey request p) #
           (case cache_match w (getCacheKey request p) of
              Some c \<Rightarrow> []
            | None \<Rightarrow>
                snd (generateResponse w p (req_headers request)) @
                (case fst (generateResponse w p (req_headers request)) of
                   Inl msg \<Rightarrow> []
                 | Inr r \<Rightarrow> if status r = 200
                            then [CachePut (getCacheKey request p) (cache_entry r)] else []))
      else snd (generateResponse w p (req_headers request)))"
  by (simp add: serve_def Let_def snd_bind_res fst_bind_res getFromCache_def storeInCache_def
        enabled_CACHE_CONFIG cache_entry_def split: option.splits sum.splits)

lemma serve_result:
  "fst (serve w request p) =
     (case (if isCacheable p \<and> \<not> hhas (req_headers request) ''range''
            then cache_match w (getCacheKey request p) else None) of
        Some c \<Rightarrow> Inr (for_method request
                        (set_header (copy_Response (body c) c) ''X-Cache-Status'' ''HIT''))
      | None \<Rightarrow>
          (case fst (generateResponse w p (req_headers request)) of
             Inl msg \<Rightarrow> Inl msg
           | Inr r \<Rightarrow>
               if (isCacheable p \<and> \<not> hhas (req_headers request) ''range'') \<and> status r = 200
               then Inr (for_method request
                           (set_header (copy_Response (body r) r) ''X-Cache-Status'' ''MISS''))
               else Inr (for_method request r)))"
  by (simp add: serve_def Let_def snd_bind_res fst_bind_res getFromCache_def storeInCache_def
        enabled_CACHE_CONFIG split: option.splits sum.splits)

lemma fetch_try_trace:
  "snd (fetch_try w request) =
     snd (resolveFinalRequestPath w request) @
     (case fst (resolveFinalRequestPath w request) of
        Inr (Some p) \<Rightarrow> if p = [] then [] else snd (serve w request p)
      | _ \<Rightarrow> [])"
  by (simp add: fetch_try_def snd_bind_res truthy_def split: sum.splits option.splits)

lemma fetch_try_result:
  "fst (fetch_try w request) =
     (case fst (resolveFinalRequestPath w request) of
        Inl msg \<Rightarrow> Inl msg
      | Inr None \<Rightarrow> Inr (text_Response ''Not Found'' 404 Map.empty)
      | Inr (Some p) \<Rightarrow> if p = [] then Inr (text_Response ''Not Found'' 404 Map.empty)
                         else fst (serve w request p))"
  by (simp add: fetch_try_def fst_bind_res truthy_def split: sum.splits option.splits)

lemma fetch_trace:
  "snd (fetch w request) =
     (if req_method request = ''GET'' \<or> req_method request = ''HEAD''
      then snd (fetch_try w request) else [])"
  by (simp add: fetch_def split: prod.splits sum.splits)

lemma fetch_result:
  "fst (fetch w request) =
     (if req_method request = ''GET'' \<or> req_method request = ''HEAD''
      then (case fst (fetch_try w request) of
              Inl msg \<Rightarrow> text_Response msg 400 Map.empty
            | Inr r \<Rightarrow> r)
      else text_Response ''Method Not Allowed'' 405 (hset Map.empty ''Allow'' ''GET, HEAD''))"
  by (simp add: fetch_def split: prod.splits sum.splits)

lemma fetch_try_trace_serve:
  assumes "e \<in> set (snd (fetch_try w request))"
    and "e \<notin> set (snd (resolveFinalRequestPath w request))"
  shows "\<exists>p. fst (resolveFinalRequestPath w request) = Inr (Some p) \<and> p \<noteq> []
            \<and> e \<in> set (snd (serve w request p))"
proof (cases "fst (resolveFinalRequestPath w request)")
  case (Inl msg)
  with assms show ?thesis by (simp add: fetch_try_trace)
next
  case (Inr fp)
  with assms show ?thesis
    by (cases fp) (simp_all add: fetch_try_trace split: if_splits)
qed

lemma fetch_cache_access:
  assumes "e \<in> set (snd (fetch w request))" and "is_cache_access e"
  shows "\<exists>p. fst (resolveFinalRequestPath w request) = Inr (Some p)
            \<and> e \<in> set (snd (serve w request p))"
proof -
  from assms(1) have m: "e \<in> set (snd (fetch_try w request))"
    by (simp add: fetch_trace split: if_splits)
  from assms(2) have "e \<notin> set (snd (resolveFinalRequestPath w request))"
    using resolve_trace_no_access by blast
  with m show ?thesis
    using fetch_try_trace_serve by blast
qed

lemma serve_cache_access:
  assumes "e \<in> set (snd (serve w request p))" and "is_cache_access e"
  shows "isCacheable p \<and> \<not> hhas (req_headers request) ''range''
       \<and> cache_key e = Some (getCacheKey request p)"
proof -
  have "e \<notin> set (snd (generateResponse w p (req_headers request)))"
    using assms(2) by (auto simp: generateResponse_trace is_cache_access_def cache_key_def)
  with assms(1) show ?thesis
    by (auto simp: serve_trace cache_key_def split: if_splits option.splits sum.splits)
qed

lemma serve_trace_put:
  assumes "CachePut k entry \<in> set (snd (serve w request p))"
  shows "\<exists>r. fst (generateResponse w p (req_headers request)) = Inr r \<and> status r = 200
            \<and> entry = cache_entry r \<and> k = getCacheKey request p
            \<and> isCacheable p \<and> \<not> hhas (req_headers request) ''range''
            \<and> cache_match w (getCacheKey request p) = None"
proof (cases "fst (generateResponse w p (req_headers request))")
  case (Inl msg)
  with assms show ?thesis
    by (cases "cache_match w (getCacheKey request p)")
       (simp_all add: serve_trace generateResponse_trace split: if_splits)
next
  case (Inr r)
  with assms show ?thesis
    by (cases "cache_match w (getCacheKey request p)")
       (simp_all add: serve_trace generateResponse_trace split: if_splits)
qed

section \<open>A run of the small deployment\<close>

lemma demo_generateResponse:
  "generateResponse demo_platform demo_path (req_headers demo_request) =
     (Inr demo_response,
      [BucketGet (drop 1 demo_path) \<lparr>onlyIf = Map.empty, opt_range = None\<rparr>])"
  by (simp add: worker_defs demo_defs demo_response_def lowercase_names)

lemma demo_fetch_trace:
  "snd (fetch demo_platform demo_request) =
     [RemoveRevokeToken [[], ''wm-contents'', ''TOKEN'', ''out'', ''cid'', ''stream.m3u8''],
      DoveRunnerAes ''/wm-contents/TOKEN/out/cid/stream.m3u8''
        [[], ''wm-contents'', ''TOKEN'', ''out'', ''cid'', ''stream.m3u8'']
        ''wm-contents'' False,
      CacheMatch ''https://cdn.example.com/wm-contents/out/cid/stream.m3u8'',
      BucketGet ''wm-contents/out/cid/stream.m3u8'' \<lparr>onlyIf = Map.empty, opt_range = None\<rparr>,
      CachePut ''https://cdn.example.com/wm-contents/out/cid/stream.m3u8''
        (cache_entry demo_response)]"
  by (simp add: worker_defs demo_defs demo_response_def cache_entry_def lowercase_names)

section \<open>The content fetcher\<close>

text \<open>
  Claim C5, as amended. The content fetcher calls the object store once, with the key of
  the resolved path. The \<^verbatim>\<open>onlyIf\<close> option is always the request's headers. The range
  option is passed (and is the request's headers) if and only if the request carries a
  Range header whose value is not the empty string.
\<close>

theorem generateResponse_range_option:
  "\<exists>opts. snd (generateResponse w p h) = [BucketGet (drop 1 p) opts]
      \<and> onlyIf opts = h
      \<and> (opt_range opts = Some h \<longleftrightarrow> (\<exists>v. hget h ''Range'' = Some v \<and> v \<noteq> []))
      \<and> (opt_range opts = None \<longleftrightarrow> \<not> (\<exists>v. hget h ''Range'' = Some v \<and> v \<noteq> []))"
  by (simp add: generateResponse_trace truthy_iff hget_def lowercase_names)

theorem generateResponse_range_option_witness:
  "hget (req_headers range_request) ''Range'' = Some ''bytes=2-5''
   \<and> map (\<lambda>e. case e of BucketGet k opts \<Rightarrow> opt_range opts \<noteq> None | _ \<Rightarrow> False)
        (snd (generateResponse demo_platform demo_path (req_headers range_request))) = [True]"
proof -
  have v: "hget (req_headers range_request) ''Range'' = Some ''bytes=2-5''"
    by (simp add: demo_defs hget_hset)
  from generateResponse_range_option
         [of demo_platform demo_path "req_headers range_request"]
  obtain opts where
    t: "snd (generateResponse demo_platform demo_path (req_headers range_request)) =
          [BucketGet (drop 1 demo_path) opts]"
    and r: "opt_range opts = Some (req_headers range_request)
              \<longleftrightarrow> (\<exists>v. hget (req_headers range_request) ''Range'' = Some v \<and> v \<noteq> [])"
    by blast
  from r v have "opt_range opts \<noteq> None" by simp
  with t v show ?thesis by simp
qed

text \<open>
  Claim C5 as stated fails: a request whose Range header has the empty value carries the
  header, and no range option is passed.
\<close>

theorem generateResponse_range_option_counterexample:
  "hhas (req_headers empty_range_request) ''Range''
   \<and> snd (generateResponse demo_platform demo_path (req_headers empty_range_request)) =
       [BucketGet (drop 1 demo_path)
          \<lparr>onlyIf = req_headers empty_range_request, opt_range = None\<rparr>]"
  by (simp add: generateResponse_trace truthy_def hhas_hget hget_hset demo_defs lowercase_names)

text \<open>
  Claim C6, as amended. When the request has a Range header with a non-empty value and
  the store returns an object that has a body and a range, the content fetcher answers
  206 with \<^verbatim>\<open>Content-Range: bytes <offset>-<offset+length-1>/<size>\<close>, computed from the
  range and the size the store returned.
\<close>

theorem generateResponse_partial:
  assumes "hget h ''Range'' = Some v" and "v \<noteq> []"
    and "snd (generateResponse w p h) = [BucketGet key opts]"
    and "FWM_BUCKER_get w key opts = Inr (Some obj)"
    and "r2_body obj = Some b" and "r2_range obj = Some r"
  shows "\<exists>resp. fst (generateResponse w p h) = Inr resp
      \<and> status resp = 206
      \<and> hget (headers resp) ''Content-Range'' =
          Some (''bytes '' @ js_num (offset r) @ ''-''
                @ js_num (offset r + range_length r - 1) @ ''/'' @ js_num (r2_size obj))"
proof -
  from assms(1,2) have t: "truthy (hget h ''range'')"
    by (simp add: truthy_iff hget_def lowercase_names)
  from assms(3) have k: "key = drop 1 p" and o: "opts = \<lparr>onlyIf = h, opt_range = Some h\<rparr>"
    using t by (simp_all add: generateResponse_trace)
  show ?thesis
    using assms(4-6) t
    by (simp add: generateResponse_result k o Let_def hget_hset lowercase_names)
qed

theorem generateResponse_partial_witness:
  "hget (req_headers range_request) ''Range'' = Some ''bytes=2-5''
   \<and> map_option status
        (returned (generateResponse demo_platform demo_path (req_headers range_request)))
       = Some 206
   \<and> map_option (\<lambda>resp. hget (headers resp) ''Content-Range'')
        (returned (generateResponse demo_platform demo_path (req_headers range_request)))
       = Some (Some ''bytes 2-5/7'')"
proof -
  let ?h = "req_headers range_request"
  let ?opts = "\<lparr>onlyIf = ?h, opt_range = Some ?h\<rparr>"
  let ?obj = "demo_object\<lparr>r2_body := Some ''XTM3'',
                r2_range := Some \<lparr>offset = 2, range_length = 4\<rparr>\<rparr>"
  have a: "hget ?h ''Range'' = Some ''bytes=2-5''"
    by (simp add: demo_defs hget_hset)
  have b: "''bytes=2-5'' \<noteq> []" by simp
  have c: "snd (generateResponse demo_platform demo_path ?h) =
             [BucketGet (drop 1 demo_path) ?opts]"
    using a by (simp add: generateResponse_trace truthy_def hget_def lowercase_names)
  have d: "FWM_BUCKER_get demo_platform (drop 1 demo_path) ?opts = Inr (Some ?obj)"
    using a by (simp add: demo_platform_def demo_get_def range_request_def with_header_def
                  demo_request_def hget_hset lowercase_names)
  have e: "r2_body ?obj = Some ''XTM3''" by simp
  have f: "r2_range ?obj = Some \<lparr>offset = 2, range_length = 4\<rparr>" by simp
  from generateResponse_partial [OF a b c d e f]
  obtain resp where "fst (generateResponse demo_platform demo_path ?h) = Inr resp"
    and "status resp = 206"
    and "hget (headers resp) ''Content-Range'' =
           Some (''bytes '' @ js_num 2 @ ''-'' @ js_num (2 + 4 - 1) @ ''/''
                 @ js_num (r2_size ?obj))"
    by auto
  then show ?thesis
    using a by (simp add: returned_def demo_object_def js_num_def nat_digits.simps)
qed

text \<open>
  Claim C6 as stated fails in two ways. A request whose Range header has the empty value
  is answered 200 although the store returned a range; and a request with a Range header
  whose condition the store answers without a body is answered 304 although the object
  has a range.
\<close>

theorem generateResponse_partial_counterexample:
  "hhas (req_headers empty_range_request) ''Range''
   \<and> FWM_BUCKER_get demo_platform (drop 1 demo_path)
        \<lparr>onlyIf = req_headers empty_range_request, opt_range = None\<rparr>
       = Inr (Some demo_object)
   \<and> r2_range demo_object \<noteq> None
   \<and> map_option status
        (returned (generateResponse demo_platform demo_path (req_headers empty_range_request)))
       = Some 200
   \<and> hhas (req_headers conditional_range_request) ''Range''
   \<and> FWM_BUCKER_get demo_platform (drop 1 demo_path)
        \<lparr>onlyIf = req_headers conditional_range_request,
         opt_range = Some (req_headers conditional_range_request)\<rparr>
       = Inr (Some (demo_object\<lparr>r2_body := None\<rparr>))
   \<and> r2_range (demo_object\<lparr>r2_body := None\<rparr>) \<noteq> None
   \<and> map_option status
        (returned (generateResponse demo_platform demo_path
                     (req_headers conditional_range_request)))
       = Some 304"
  by (simp add: generateResponse_result generateResponse_trace returned_def truthy_def
        hhas_hget hget_hset demo_defs lowercase_names Let_def)

text \<open>
  Claim C7. When the store returns an object without a body (the condition of the
  request was met), the content fetcher answers 304 with a null body; the headers are
  the metadata the object wrote, with \<^verbatim>\<open>ETag\<close> set to the object's tag, \<^verbatim>\<open>Content-Type\<close>
  set when the extension of the key is known, and \<^verbatim>\<open>Access-Control-Allow-Origin: *\<close>.
\<close>

theorem generateResponse_not_modified:
  assumes "snd (generateResponse w p h) = [BucketGet key opts]"
    and "FWM_BUCKER_get w key opts = Inr (Some obj)"
    and "r2_body obj = None"
  shows "\<exists>resp. fst (generateResponse w p h) = Inr resp
      \<and> status resp = 304
      \<and> body resp = None
      \<and> hget (headers resp) ''ETag'' = Some (httpEtag obj)
      \<and> (\<forall>ct. getContentType key = Some ct \<longrightarrow> hget (headers resp) ''Content-Type'' = Some ct)
      \<and> hget (headers resp) ''Access-Control-Allow-Origin'' = Some ''*''
      \<and> (\<forall>n. lowercase n \<notin> {''etag'', ''content-type'', ''access-control-allow-origin''}
            \<longrightarrow> hget (headers resp) n = hget (writeHttpMetadata obj Map.empty) n)"
proof -
  from assms(1) have k: "key = drop 1 p"
    and o: "opts = \<lparr>onlyIf = h,
                    opt_range = (if truthy (hget h ''range'') then Some h else None)\<rparr>"
    by (simp_all add: generateResponse_trace)
  show ?thesis
    using assms(2,3) unfolding k o
    by (auto simp: generateResponse_result Let_def hget_hset lowercase_names
             split: option.splits)
qed

theorem generateResponse_not_modified_witness:
  "hget (req_headers conditional_request) ''If-None-Match'' = Some (httpEtag demo_object)
   \<and> map_option status
        (returned (generateResponse demo_platform demo_path (req_headers conditional_request)))
       = Some 304
   \<and> map_option body
        (returned (generateResponse demo_platform demo_path (req_headers conditional_request)))
       = Some None
   \<and> map_option (\<lambda>resp. hget (headers resp) ''ETag'')
        (returned (generateResponse demo_platform demo_path (req_headers conditional_request)))
       = Some (Some ''v1'')
   \<and> map_option (\<lambda>resp. hget (headers resp) ''Content-Type'')
        (returned (generateResponse demo_platform demo_path (req_headers conditional_request)))
       = Some (Some ''application/vnd.apple.mpegurl'')
   \<and> map_option (\<lambda>resp. hget (headers resp) ''Cache-Control'')
        (returned (generateResponse demo_platform demo_path (req_headers conditional_request)))
       = Some (Some ''no-store'')"
proof -
  let ?h = "req_headers conditional_request"
  let ?opts = "\<lparr>onlyIf = ?h, opt_range = None\<rparr>"
  let ?obj = "demo_object\<lparr>r2_body := None\<rparr>"
  have a: "hget ?h ''If-None-Match'' = Some (httpEtag demo_object)"
    by (simp add: demo_defs hget_hset)
  have c: "snd (generateResponse demo_platform demo_path ?h) =
             [BucketGet (drop 1 demo_path) ?opts]"
    by (simp add: generateResponse_trace truthy_def hget_hset demo_defs lowercase_names)
  have d: "FWM_BUCKER_get demo_platform (drop 1 demo_path) ?opts = Inr (Some ?obj)"
    using a by (simp add: demo_platform_def demo_get_def)
  have e: "r2_body ?obj = None" by simp
  have ct: "getContentType (drop 1 demo_path) = Some ''application/vnd.apple.mpegurl''"
    by (simp add: getContentType_def endsWith_def demo_path_def)
  have cc: "lowercase ''Cache-Control''
              \<notin> {''etag'', ''content-type'', ''access-control-allow-origin''}"
    by (simp add: lowercase_names)
  from generateResponse_not_modified [OF c d e]
  obtain resp where "fst (generateResponse demo_platform demo_path ?h) = Inr resp"
    and "status resp = 304" and "body resp = None"
    and "hget (headers resp) ''ETag'' = Some (httpEtag ?obj)"
    and "hget (headers resp) ''Content-Type'' = Some ''application/vnd.apple.mpegurl''"
    and "hget (headers resp) ''Cache-Control'' =
           hget (writeHttpMetadata ?obj Map.empty) ''Cache-Control''"
    using ct cc by blast
  then show ?thesis
    using a by (simp add: returned_def demo_object_def hget_hset)
qed

text \<open>
  Claim C10. For a request that carries no Range header the content fetcher never
  answers 206 (its status is 200, 304 or 404), whatever the store returns, and the call
  to the store has no range option.
\<close>

theorem generateResponse_no_range:
  assumes "\<not> hhas h ''Range''"
  shows "(\<forall>resp. fst (generateResponse w p h) = Inr resp
            \<longrightarrow> status resp \<noteq> 206 \<and> status resp \<in> {200, 304, 404})
      \<and> (\<forall>key opts. BucketGet key opts \<in> set (snd (generateResponse w p h))
            \<longrightarrow> opt_range opts = None)"
proof -
  from assms have t: "\<not> truthy (hget h ''range'')"
    by (simp add: truthy_iff hhas_def hget_def lowercase_names)
  show ?thesis
    using t
    by (auto simp: generateResponse_result generateResponse_trace Let_def text_Response_def
             split: sum.splits option.splits)
qed

theorem generateResponse_no_range_witness:
  "\<not> hhas (req_headers demo_request) ''Range''
   \<and> r2_range demo_object \<noteq> None
   \<and> map_option status
        (returned (generateResponse demo_platform demo_path (req_headers demo_request)))
       = Some 200
   \<and> snd (generateResponse demo_platform demo_path (req_headers demo_request))
       = [BucketGet (drop 1 demo_path) \<lparr>onlyIf = req_headers demo_request, opt_range = None\<rparr>]"
proof -
  let ?h = "req_headers demo_request"
  have a: "\<not> hhas ?h ''Range''"
    by (simp add: demo_defs hhas_hget)
  have t: "snd (generateResponse demo_platform demo_path ?h)
             = [BucketGet (drop 1 demo_path) \<lparr>onlyIf = ?h, opt_range = None\<rparr>]"
    by (simp add: generateResponse_trace truthy_def demo_defs)
  obtain resp where r: "fst (generateResponse demo_platform demo_path ?h) = Inr resp"
    and s: "status resp = 200"
    by (simp add: generateResponse_result truthy_def demo_defs Let_def lowercase_names)
  from generateResponse_no_range [OF a, of demo_platform demo_path] r
  have "status resp \<in> {200, 304, 404}" by blast
  with a t r s show ?thesis by (simp add: returned_def demo_object_def)
qed

section \<open>The cache gate\<close>

text \<open>
  Claim C1. Whatever the platform does, a request accesses the cache (a lookup or a
  store) only when its path was resolved, the resolved path ends in one of the configured
  extensions, and the request carries no Range header. So a request with a Range header
  is never looked up in the cache and never stored to it.
\<close>

theorem cache_only_when_cacheable:
  assumes "e \<in> set (snd (fetch w request))" and "is_cache_access e"
  shows "(\<exists>p. fst (resolveFinalRequestPath w request) = Inr (Some p)
              \<and> isCacheable p
              \<and> (\<exists>ext \<in> {''.m3u8'', ''.ts'', ''.mp4'', ''.m4s'', ''.mpd''}. endsWith p ext))
         \<and> \<not> hhas (req_headers request) ''Range''"
proof -
  from assms obtain p where p: "fst (resolveFinalRequestPath w request) = Inr (Some p)"
    and s: "e \<in> set (snd (serve w request p))"
    using fetch_cache_access by blast
  from s assms(2) have "isCacheable p \<and> \<not> hhas (req_headers request) ''range''"
    using serve_cache_access by blast
  with p show ?thesis
    by (auto simp: isCacheable_iff hhas_def lowercase_names)
qed

theorem cache_only_when_cacheable_witness:
  "CacheMatch ''https://cdn.example.com/wm-contents/out/cid/stream.m3u8''
     \<in> set (snd (fetch demo_platform demo_request))
   \<and> is_cache_access (CacheMatch ''https://cdn.example.com/wm-contents/out/cid/stream.m3u8'')
   \<and> fst (resolveFinalRequestPath demo_platform demo_request) = Inr (Some demo_path)
   \<and> isCacheable demo_path
   \<and> \<not> hhas (req_headers demo_request) ''Range''
   \<and> filter is_cache_access (snd (fetch demo_platform range_request)) = []"
proof -
  let ?e = "CacheMatch ''https://cdn.example.com/wm-contents/out/cid/stream.m3u8''"
  have a: "?e \<in> set (snd (fetch demo_platform demo_request))"
    by (simp add: worker_defs demo_defs lowercase_names)
  have b: "is_cache_access ?e"
    by (simp add: is_cache_access_def cache_key_def)
  have c: "fst (resolveFinalRequestPath demo_platform demo_request) = Inr (Some demo_path)"
    by (simp add: worker_defs demo_defs)
  have d: "filter is_cache_access (snd (fetch demo_platform range_request)) = []"
    by (simp add: worker_defs demo_defs lowercase_names)
  from cache_only_when_cacheable [OF a b] c
  have "isCacheable demo_path \<and> \<not> hhas (req_headers demo_request) ''Range''"
    by simp
  with a b c d show ?thesis by simp
qed

text \<open>
  Claim C2. Every entry the handler writes to the cache has status 200 and the header
  \<^verbatim>\<open>Cache-Control: public, max-age=3600\<close> (the configured TTL), whatever the origin set;
  it is the response the content fetcher produced for the resolved path, which had status
  200, with the same body and the same other headers.
\<close>

theorem cache_entry_invariant:
  assumes "CachePut k entry \<in> set (snd (fetch w request))"
  shows "status entry = 200
       \<and> hget (headers entry) ''Cache-Control''
           = Some (''public, max-age='' @ js_num (ttl CACHE_CONFIG))
       \<and> hget (headers entry) ''Cache-Control'' = Some ''public, max-age=3600''
       \<and> (\<exists>p r. fst (resolveFinalRequestPath w request) = Inr (Some p)
                \<and> fst (generateResponse w p (req_headers request)) = Inr r
                \<and> status r = 200 \<and> body entry = body r
                \<and> (\<forall>n. lowercase n \<noteq> ''cache-control''
                      \<longrightarrow> hget (headers entry) n = hget (headers r) n))"
proof -
  let ?e = "CachePut k entry"
  have "is_cache_access ?e"
    by (simp add: is_cache_access_def cache_key_def)
  with assms obtain p where p: "fst (resolveFinalRequestPath w request) = Inr (Some p)"
    and s: "?e \<in> set (snd (serve w request p))"
    using fetch_cache_access by blast
  from s obtain r where r: "fst (generateResponse w p (req_headers request)) = Inr r"
    and st: "status r = 200" and e: "entry = cache_entry r"
    using serve_trace_put by blast
  have c: "hget (headers entry) ''Cache-Control''
             = Some (''public, max-age='' @ js_num (ttl CACHE_CONFIG))"
    by (simp add: e cache_entry_def hget_hset)
  then have "hget (headers entry) ''Cache-Control'' = Some ''public, max-age=3600''"
    by (simp add: ttl_CACHE_CONFIG)
  moreover have "\<forall>n. lowercase n \<noteq> ''cache-control''
      \<longrightarrow> hget (headers entry) n = hget (headers r) n"
    by (simp add: e cache_entry_def hget_hset lowercase_names)
  moreover have "status entry = 200" "body entry = body r"
    by (simp_all add: e cache_entry_def st)
  ultimately show ?thesis using c p r st by blast
qed

theorem cache_entry_invariant_witness:
  "CachePut ''https://cdn.example.com/wm-contents/out/cid/stream.m3u8''
      (cache_entry demo_response) \<in> set (snd (fetch demo_platform demo_request))
   \<and> fst (generateResponse demo_platform demo_path (req_headers demo_request))
       = Inr demo_response
   \<and> status demo_response = 200
   \<and> hget (headers demo_response) ''Cache-Control'' = Some ''no-store''
   \<and> status (cache_entry demo_response) = 200
   \<and> body (cache_entry demo_response) = Some ''#EXTM3U''
   \<and> hget (headers (cache_entry demo_response)) ''Cache-Control''
       = Some ''public, max-age=3600''"
proof -
  have a: "CachePut ''https://cdn.example.com/wm-contents/out/cid/stream.m3u8''
             (cache_entry demo_response) \<in> set (snd (fetch demo_platform demo_request))"
    by (simp add: demo_fetch_trace)
  have b: "fst (generateResponse demo_platform demo_path (req_headers demo_request))
             = Inr demo_response"
    by (simp add: demo_generateResponse)
  have c: "status demo_response = 200"
    "hget (headers demo_response) ''Cache-Control'' = Some ''no-store''"
    "body (cache_entry demo_response) = Some ''#EXTM3U''"
    by (simp_all add: demo_response_def cache_entry_def hget_hset lowercase_names)
  from cache_entry_invariant [OF a]
  have "status (cache_entry demo_response) = 200"
    and "hget (headers (cache_entry demo_response)) ''Cache-Control''
           = Some ''public, max-age=3600''"
    by blast+
  with a b c show ?thesis by simp
qed

text \<open>
  Claim C3, as amended. For a \<^verbatim>\<open>GET\<close> or \<^verbatim>\<open>HEAD\<close> request whose resolved path is cacheable
  and that carries no Range header, the response carries \<^verbatim>\<open>X-Cache-Status: HIT\<close> when
  it is served from the cache, and \<^verbatim>\<open>X-Cache-Status: MISS\<close> when the cache has no entry
  and the content fetcher answers 200. When the content fetcher answers with another
  status, the handler returns its headers unchanged.
\<close>

theorem cache_status_header:
  assumes "req_method request = ''GET'' \<or> req_method request = ''HEAD''"
    and "fst (resolveFinalRequestPath w request) = Inr (Some p)"
    and "isCacheable p" and "\<not> hhas (req_headers request) ''Range''"
  shows "(\<forall>c. cache_match w (getCacheKey request p) = Some c \<longrightarrow>
            hget (headers (fst (fetch w request))) ''X-Cache-Status'' = Some ''HIT''
            \<and> status (fst (fetch w request)) = status c)
       \<and> (cache_match w (getCacheKey request p) = None \<longrightarrow>
            (\<forall>r. fst (generateResponse w p (req_headers request)) = Inr r \<longrightarrow>
               status (fst (fetch w request)) = status r
               \<and> (status r = 200 \<longrightarrow>
                    hget (headers (fst (fetch w request))) ''X-Cache-Status'' = Some ''MISS'')
               \<and> (status r \<noteq> 200 \<longrightarrow> headers (fst (fetch w request)) = headers r)))"
proof -
  from assms(3) have ne: "p \<noteq> []"
    by (auto simp: isCacheable_iff endsWith_def)
  from assms(4) have nr: "\<not> hhas (req_headers request) ''range''"
    by (simp add: hhas_def lowercase_names)
  have f: "fst (fetch w request) =
             (case fst (serve w request p) of
                Inl msg \<Rightarrow> text_Response msg 400 Map.empty | Inr r \<Rightarrow> r)"
    using assms(1,2) ne by (simp add: fetch_result fetch_try_result)
  show ?thesis
    using assms(3) nr
    by (auto simp: f serve_result for_method_def set_header_def copy_Response_def hget_hset)
qed

theorem cache_status_header_witness:
  "req_method demo_request = ''GET''
   \<and> fst (resolveFinalRequestPath warm_platform demo_request) = Inr (Some demo_path)
   \<and> isCacheable demo_path
   \<and> \<not> hhas (req_headers demo_request) ''Range''
   \<and> cache_match warm_platform (getCacheKey demo_request demo_path) = Some demo_cached
   \<and> hget (headers (fst (fetch warm_platform demo_request))) ''X-Cache-Status'' = Some ''HIT''
   \<and> fst (resolveFinalRequestPath demo_platform demo_request) = Inr (Some demo_path)
   \<and> cache_match demo_platform (getCacheKey demo_request demo_path) = None
   \<and> hget (headers (fst (fetch demo_platform demo_request))) ''X-Cache-Status'' = Some ''MISS''"
proof -
  have m: "req_method demo_request = ''GET'' \<or> req_method demo_request = ''HEAD''"
    by (simp add: demo_defs)
  have p: "fst (resolveFinalRequestPath warm_platform demo_request) = Inr (Some demo_path)"
    by (simp add: worker_defs demo_defs)
  have p': "fst (resolveFinalRequestPath demo_platform demo_request) = Inr (Some demo_path)"
    by (simp add: worker_defs demo_defs)
  have c: "isCacheable demo_path"
    by (simp add: isCacheable_def CACHE_CONFIG_def endsWith_def demo_path_def)
  have n: "\<not> hhas (req_headers demo_request) ''Range''"
    by (simp add: demo_defs hhas_hget)
  have h: "cache_match warm_platform (getCacheKey demo_request demo_path) = Some demo_cached"
    by (simp add: getCacheKey_def warm_platform_def demo_platform_def demo_request_def)
  have h': "cache_match demo_platform (getCacheKey demo_request demo_path) = None"
    by (simp add: demo_platform_def)
  obtain r where r: "fst (generateResponse demo_platform demo_path (req_headers demo_request))
                       = Inr r" and s: "status r = 200"
    by (simp add: generateResponse_result truthy_def demo_defs Let_def lowercase_names)
  from cache_status_header [OF m p c n] h
  have hit: "hget (headers (fst (fetch warm_platform demo_request))) ''X-Cache-Status''
               = Some ''HIT''"
    by blast
  from cache_status_header [OF m p' c n] h' r s
  have miss: "hget (headers (fst (fetch demo_platform demo_request))) ''X-Cache-Status''
                = Some ''MISS''"
    by blast
  from m p p' c n h h' hit miss show ?thesis
    by (simp add: demo_request_def)
qed

text \<open>
  Claim C3 as stated fails: the resolved path is cacheable and the request carries no
  Range header, the store answers the condition of the request without a body, and the
  304 response carries no \<^verbatim>\<open>X-Cache-Status\<close> header.
\<close>

theorem cache_status_header_counterexample:
  "req_method conditional_request = ''GET''
   \<and> fst (resolveFinalRequestPath demo_platform conditional_request) = Inr (Some demo_path)
   \<and> isCacheable demo_path
   \<and> \<not> hhas (req_headers conditional_request) ''Range''
   \<and> cache_match demo_platform (getCacheKey conditional_request demo_path) = None
   \<and> status (fst (fetch demo_platform conditional_request)) = 304
   \<and> hget (headers (fst (fetch demo_platform conditional_request))) ''X-Cache-Status'' = None"
  by (simp add: worker_defs demo_defs lowercase_names)

text \<open>
  Claim C4. The cache key of a request is the origin of its URL followed by the resolved
  path, and every cache access of the handler uses that key. So two requests with the
  same origin produce the same key for the same resolved path, whatever their own paths
  and query strings are.
\<close>

theorem cache_key_origin_and_path:
  "getCacheKey request p = origin (req_url request) @ p
   \<and> (origin (req_url r1) = origin (req_url r2) \<longrightarrow> getCacheKey r1 p = getCacheKey r2 p)
   \<and> (\<forall>e \<in> set (snd (fetch w request)).
        is_cache_access e \<longrightarrow>
          (\<exists>q. fst (resolveFinalRequestPath w request) = Inr (Some q)
                \<and> cache_key e = Some (origin (req_url request) @ q)))"
proof -
  have "\<exists>q. fst (resolveFinalRequestPath w request) = Inr (Some q)
            \<and> cache_key e = Some (origin (req_url request) @ q)"
    if "e \<in> set (snd (fetch w request))" and "is_cache_access e" for e
  proof -
    from that obtain q where q: "fst (resolveFinalRequestPath w request) = Inr (Some q)"
      and s: "e \<in> set (snd (serve w request q))"
      using fetch_cache_access by blast
    from s that(2) have "cache_key e = Some (getCacheKey request q)"
      using serve_cache_access by blast
    with q show ?thesis by (auto simp: getCacheKey_def)
  qed
  then show ?thesis by (auto simp: getCacheKey_def)
qed

theorem cache_key_origin_and_path_witness:
  "origin (req_url demo_request) = origin (req_url other_session_request)
   \<and> pathname (req_url demo_request) \<noteq> pathname (req_url other_session_request)
   \<and> search (req_url demo_request) \<noteq> search (req_url other_session_request)
   \<and> getCacheKey demo_request demo_path
       = ''https://cdn.example.com/wm-contents/out/cid/stream.m3u8''
   \<and> getCacheKey other_session_request demo_path = getCacheKey demo_request demo_path
   \<and> map cache_key (snd (fetch demo_platform other_session_request))
       = [None, None, Some ''https://cdn.example.com/wm-contents/out/cid/stream.m3u8'',
          None, Some ''https://cdn.example.com/wm-contents/out/cid/stream.m3u8'']"
proof -
  have o: "origin (req_url demo_request) = origin (req_url other_session_request)"
    by (simp add: demo_defs)
  have d: "pathname (req_url demo_request) \<noteq> pathname (req_url other_session_request)"
    "search (req_url demo_request) \<noteq> search (req_url other_session_request)"
    by (simp_all add: demo_defs)
  note inst = cache_key_origin_and_path [of demo_request demo_path demo_request
                 other_session_request demo_platform]
  from inst have k: "getCacheKey demo_request demo_path
                      = origin (req_url demo_request) @ demo_path"
    by blast
  from inst o
  have e: "getCacheKey demo_request demo_path = getCacheKey other_session_request demo_path"
    by blast
  have t: "map cache_key (snd (fetch demo_platform other_session_request))
       = [None, None, Some ''https://cdn.example.com/wm-contents/out/cid/stream.m3u8'',
          None, Some ''https://cdn.example.com/wm-contents/out/cid/stream.m3u8'']"
    by (simp add: worker_defs demo_defs lowercase_names)
  from k have k': "getCacheKey demo_request demo_path
                     = ''https://cdn.example.com/wm-contents/out/cid/stream.m3u8''"
    by (simp add: demo_request_def demo_path_def)
  from e have e': "getCacheKey other_session_request demo_path
                     = getCacheKey demo_request demo_path"
    by simp
  from o d k' e' t show ?thesis
    by blast
qed

section \<open>The request orchestrator\<close>

text \<open>
  Claim C8. A request whose method is neither \<^verbatim>\<open>GET\<close> nor \<^verbatim>\<open>HEAD\<close> is answered 405 with
  the header \<^verbatim>\<open>Allow: GET, HEAD\<close>, and the handler does nothing else: no token is
  verified, no path is resolved, the cache and the store are not accessed.
\<close>

theorem method_not_allowed:
  assumes "req_method request \<noteq> ''GET''" and "req_method request \<noteq> ''HEAD''"
  shows "status (fst (fetch w request)) = 405
       \<and> hget (headers (fst (fetch w request))) ''Allow'' = Some ''GET, HEAD''
       \<and> snd (fetch w request) = []"
  using assms
  by (simp add: fetch_result fetch_trace text_Response_def hget_hset hhas_hget
        lowercase_names)

theorem method_not_allowed_witness:
  "req_method post_request = ''POST''
   \<and> status (fst (fetch demo_platform post_request)) = 405
   \<and> hget (headers (fst (fetch demo_platform post_request))) ''Allow'' = Some ''GET, HEAD''
   \<and> snd (fetch demo_platform post_request) = []"
proof -
  have m: "req_method post_request = ''POST''"
    by (simp add: demo_defs)
  then have a: "req_method post_request \<noteq> ''GET''" and b: "req_method post_request \<noteq> ''HEAD''"
    by simp_all
  from method_not_allowed [OF a b, of demo_platform] m show ?thesis
    by simp
qed

text \<open>
  Claim C9. A \<^verbatim>\<open>GET\<close> or \<^verbatim>\<open>HEAD\<close> request whose first path segment neither starts with
  \<^verbatim>\<open>wmt:\<close> nor equals one of the configured prefix folders is answered 404, and the
  handler does nothing else: the cache and the store are not accessed.
\<close>

theorem unrouted_not_found:
  assumes "req_method request = ''GET'' \<or> req_method request = ''HEAD''"
    and "at_index (split CHR ''/'' (pathname (req_url request))) 1 = Some seg"
    and "\<not> startsWith seg ''wmt:''"
    and "\<not> checkWatermarkPath seg"
  shows "status (fst (fetch w request)) = 404 \<and> snd (fetch w request) = []"
proof -
  from assms(2-4) have r: "resolveFinalRequestPath w request = ret None"
    by (simp add: resolveFinalRequestPath_def Let_def)
  with assms(1) show ?thesis
    by (simp add: fetch_result fetch_trace fetch_try_result fetch_try_trace
          text_Response_def)
qed

theorem unrouted_not_found_witness:
  "req_method unknown_request = ''GET''
   \<and> at_index (split CHR ''/'' (pathname (req_url unknown_request))) 1 = Some ''videos''
   \<and> \<not> startsWith ''videos'' ''wmt:''
   \<and> ''videos'' \<notin> {''dldzkdpsxmdnjrtm'', ''wm-contents''}
   \<and> status (fst (fetch demo_platform unknown_request)) = 404
   \<and> snd (fetch demo_platform unknown_request) = []"
proof -
  have m: "req_method unknown_request = ''GET'' \<or> req_method unknown_request = ''HEAD''"
    by (simp add: demo_defs)
  have s: "at_index (split CHR ''/'' (pathname (req_url unknown_request))) 1 = Some ''videos''"
    by (simp add: demo_defs at_index_def)
  have n: "\<not> startsWith ''videos'' ''wmt:''"
    by (simp add: startsWith_def)
  have c: "\<not> checkWatermarkPath ''videos''"
    by (simp add: checkWatermarkPath_iff)
  from unrouted_not_found [OF m s n c, of demo_platform] s n
  show ?thesis
    by (simp add: demo_defs)
qed

end
